theory Spec2Isabelle
  imports Main
begin

section \<open>Strings and runes\<close>

text \<open>
  A Go \<^verbatim>\<open>string\<close> is a sequence of bytes, here a \<^typ>\<open>string\<close>; \<^verbatim>\<open>len\<close> and the
  slices \<^verbatim>\<open>s[i:j]\<close> count bytes. A \<^verbatim>\<open>for _, v := range s\<close> loop does not visit bytes: it
  decodes the string as UTF-8 and visits runes (code points), yielding \<^verbatim>\<open>0xFFFD\<close> and
  advancing one byte wherever the bytes are not a well-formed encoding.
\<close>

type_synonym rune = int

definition RuneError :: rune where
  "RuneError = 0xFFFD"

definition byte_in :: "nat \<Rightarrow> nat \<Rightarrow> char \<Rightarrow> bool" where
  "byte_in lo hi c = (lo \<le> of_char c \<and> of_char c \<le> hi)"

text \<open>
  The first rune of a string and the number of bytes it takes. The accepted ranges of
  the second byte depend on the first one (\<^verbatim>\<open>E0\<close>, \<^verbatim>\<open>ED\<close>, \<^verbatim>\<open>F0\<close> and \<^verbatim>\<open>F4\<close> narrow
  them), which excludes overlong forms, surrogates and values beyond \<^verbatim>\<open>0x10FFFF\<close>.
\<close>

fun decodeRune :: "string \<Rightarrow> rune \<times> nat" where
  "decodeRune [] = (RuneError, 0)"
| "decodeRune (c0 # cs) =
     (let b0 = (of_char c0 :: nat) in
      if b0 < 0x80 then (int b0, 1)
      else if 0xC2 \<le> b0 \<and> b0 \<le> 0xDF then
        (case cs of
           c1 # _ \<Rightarrow>
             if byte_in 0x80 0xBF c1
             then (int ((b0 - 0xC0) * 64 + (of_char c1 - 0x80)), 2)
             else (RuneError, 1)
         | _ \<Rightarrow> (RuneError, 1))
      else if 0xE0 \<le> b0 \<and> b0 \<le> 0xEF then
        (case cs of
           c1 # c2 # _ \<Rightarrow>
             if byte_in (if b0 = 0xE0 then 0xA0 else 0x80) (if b0 = 0xED then 0x9F else 0xBF) c1
                \<and> byte_in 0x80 0xBF c2
             then (int ((b0 - 0xE0) * 4096 + (of_char c1 - 0x80) * 64 + (of_char c2 - 0x80)), 3)
             else (RuneError, 1)
         | _ \<Rightarrow> (RuneError, 1))
      else if 0xF0 \<le> b0 \<and> b0 \<le> 0xF4 then
        (case cs of
           c1 # c2 # c3 # _ \<Rightarrow>
             if byte_in (if b0 = 0xF0 then 0x90 else 0x80) (if b0 = 0xF4 then 0x8F else 0xBF) c1
                \<and> byte_in 0x80 0xBF c2 \<and> byte_in 0x80 0xBF c3
             then (int ((b0 - 0xF0) * 262144 + (of_char c1 - 0x80) * 4096
                        + (of_char c2 - 0x80) * 64 + (of_char c3 - 0x80)), 4)
             else (RuneError, 1)
         | _ \<Rightarrow> (RuneError, 1))
      else (RuneError, 1))"

text \<open>The runes a \<^verbatim>\<open>range\<close> loop over the string visits, in order.\<close>

fun runes :: "string \<Rightarrow> rune list" where
  "runes [] = []"
| "runes (c # cs) =
     fst (decodeRune (c # cs)) # runes (drop (snd (decodeRune (c # cs)) - 1) cs)"

section \<open>The name validator\<close>

text \<open>
  The punctuation of the \<^verbatim>\<open>switch\<close> in \<^verbatim>\<open>isNameValid\<close>, as code points, in the order
  of the source:
  \<^verbatim>\<open>: ; < = > ? @ [ ] \ ^ _ ` { | } ~\<close>.
\<close>

definition blacklist :: "rune list" where
  "blacklist = [58, 59, 60, 61, 62, 63, 64, 91, 93, 92, 94, 95, 96, 123, 124, 125, 126]"

text \<open>
  The body of the loop of \<^verbatim>\<open>isNameValid\<close> over the runes still to visit: the band
  check \<^verbatim>\<open>v < 48 || v > 123\<close> returns false, then the \<^verbatim>\<open>switch\<close> returns false on the
  listed punctuation, otherwise the loop goes on; the end of the string returns true.
\<close>

fun isNameValid_loop :: "rune list \<Rightarrow> bool" where
  "isNameValid_loop [] = True"
| "isNameValid_loop (v # vs) =
     (if v < 48 \<or> v > 123 then False
      else if v \<in> set blacklist then False
      else isNameValid_loop vs)"

definition isNameValid :: "string \<Rightarrow> bool" where
  "isNameValid s = isNameValid_loop (runes s)"

text \<open>The character class \<^verbatim>\<open>[a-zA-Z0-9]\<close> of \<^verbatim>\<open>regCheckURL\<close>, on a byte and on a rune.\<close>

definition alnum :: "char \<Rightarrow> bool" where
  "alnum c =
     (let v = (of_char c :: nat) in
      (97 \<le> v \<and> v \<le> 122) \<or> (65 \<le> v \<and> v \<le> 90) \<or> (48 \<le> v \<and> v \<le> 57))"

definition rune_alnum :: "rune \<Rightarrow> bool" where
  "rune_alnum v = ((97 \<le> v \<and> v \<le> 122) \<or> (65 \<le> v \<and> v \<le> 90) \<or> (48 \<le> v \<and> v \<le> 57))"

section \<open>Errors\<close>

text \<open>
  The error values of the package: its two sentinels, \<^verbatim>\<open>sql.ErrNoRows\<close> of the
  database library, any other error of a library call (by its message), and the
  \<^verbatim>\<open>errorValue\<close> struct that \<^verbatim>\<open>newError\<close> builds, which keeps the cause.
\<close>

datatype error =
    ErrInvalidName
  | ErrNotConfigured
  | ErrNoRows
  | External string
  | errorValue "error option" string

fun Error :: "error \<Rightarrow> string" where
  "Error ErrInvalidName = ''name contains invalid characters''"
| "Error ErrNotConfigured = ''database is not loaded or configured''"
| "Error ErrNoRows = ''sql: no rows in result set''"
| "Error (External m) = m"
| "Error (errorValue e s) = s"

fun Unwrap :: "error \<Rightarrow> error option" where
  "Unwrap (errorValue e s) = e"
| "Unwrap _ = None"

definition newError :: "string \<Rightarrow> error option \<Rightarrow> error" where
  "newError s e =
     (case e of
        Some e' \<Rightarrow> errorValue (Some e') (s @ '': '' @ Error e')
      | None \<Rightarrow> errorValue None s)"

section \<open>The Linker and what it owns\<close>

text \<open>
  The prepared lookup statement \<^verbatim>\<open>l.get\<close>: whether it has been closed, and the outcome of
  \<^verbatim>\<open>QueryRowContext(l.ctx, x).Scan(&n)\<close> for each key \<^verbatim>\<open>x\<close>, the scanned \<^verbatim>\<open>LinkURL\<close> or
  the error. The rows live in the database server, so the outcome is a parameter.
\<close>

record Stmt =
  stmt_closed :: bool
  QueryRow_Scan :: "string \<Rightarrow> error + string"

text \<open>The calls made through the connection, in order, with the query text.\<close>

datatype db_call =
    PrepareCall string
  | ExecCall string "string list"
  | CloseCall string

record DB =
  db_closed :: bool
  calls :: "db_call list"

record Context =
  ctx_done :: bool

record Server =
  inShutdown :: bool
  srv_closed :: bool

text \<open>
  The struct \<^verbatim>\<open>Linker\<close>; a pointer field is an option, \<^verbatim>\<open>nil\<close> being \<open>None\<close>. The
  fields \<^verbatim>\<open>ctx\<close> and \<^verbatim>\<open>cancel\<close> are set together and are one field here; \<^verbatim>\<open>key\<close> and
  \<^verbatim>\<open>cert\<close> are read by no function below.
\<close>

record Linker =
  db :: "DB option"
  ctx :: "Context option"
  get :: "Stmt option"
  url :: string
  Server :: Server

definition sqlAdd :: string where
  "sqlAdd = ''INSERT INTO Links(LinkName, LinkURL) VALUES(?, ?)''"

definition sqlDelete :: string where
  "sqlDelete = ''DELETE FROM Links WHERE LinkName = ?''"

definition StatusTemporaryRedirect :: nat where
  "StatusTemporaryRedirect = 307"

definition StatusInternalServerError :: nat where
  "StatusInternalServerError = 500"

section \<open>The path matcher\<close>

text \<open>
  \<^verbatim>\<open>html.EscapeString\<close> replaces the five characters \<^verbatim>\<open>& ' < > "\<close> by their entities
  and copies every other byte.
\<close>

definition escapeChar :: "char \<Rightarrow> string" where
  "escapeChar c =
     (if c = CHR ''&'' then ''&amp;''
      else if c = CHR 0x27 then ''&#39;''
      else if c = CHR ''<'' then ''&lt;''
      else if c = CHR ''>'' then ''&gt;''
      else if c = CHR 0x22 then ''&#34;''
      else [c])"

definition EscapeString :: "string \<Rightarrow> string" where
  "EscapeString s = concat (map escapeChar s)"

text \<open>
  \<^verbatim>\<open>regCheckURL.FindStringIndex(s)\<close> for the pattern \<^verbatim>\<open>(^\/[a-zA-Z0-9]+)\<close>: the pattern is
  anchored at the start of the text, so the only possible match begins at 0 with a slash;
  the repetition is greedy and takes every letter and digit that follows, and needs at
  least one. The result is the pair of byte offsets, or \<^verbatim>\<open>nil\<close>.
\<close>

definition regCheckURL_FindStringIndex :: "string \<Rightarrow> (nat \<times> nat) option" where
  "regCheckURL_FindStringIndex s =
     (case s of
        [] \<Rightarrow> None
      | c # cs \<Rightarrow>
          if c = CHR ''/'' \<and> takeWhile alnum cs \<noteq> []
          then Some (0, 1 + length (takeWhile alnum cs))
          else None)"

section \<open>The request handler\<close>

text \<open>
  What the handler does to the response writer: one call of \<^verbatim>\<open>http.Redirect\<close> with the
  target and the status, or \<^verbatim>\<open>WriteHeader\<close> and \<^verbatim>\<open>Write\<close> with a status and a body
  together with the line written to the error stream, or nothing because a panic was
  recovered by the deferred function.
\<close>

datatype response =
    Redirect string nat
  | Failed nat string string
  | Recovered

text \<open>
  \<^verbatim>\<open>serve\<close> on the request's \<^verbatim>\<open>RequestURI\<close>. The second component lists the keys the
  lookup statement was run with. The slices \<^verbatim>\<open>s[1:p[1]]\<close> and \<^verbatim>\<open>s[p[1]:]\<close> are in range,
  the offsets being those of a match in \<^verbatim>\<open>s\<close>. Calling \<^verbatim>\<open>QueryRowContext\<close> on a \<^verbatim>\<open>nil\<close>
  statement panics.
\<close>

definition serve :: "Linker \<Rightarrow> string \<Rightarrow> response \<times> string list" where
  "serve l RequestURI =
     (if length RequestURI \<le> 1 then (Redirect (url l) StatusTemporaryRedirect, [])
      else
        let s = EscapeString RequestURI;
            p = regCheckURL_FindStringIndex s
        in case p of
             None \<Rightarrow> (Redirect (url l) StatusTemporaryRedirect, [])
           | Some (p0, p1) \<Rightarrow>
               if p0 \<noteq> 0 \<or> p1 \<le> 1 then (Redirect (url l) StatusTemporaryRedirect, [])
               else
                 let x = take (p1 - 1) (drop 1 s)
                 in case get l of
                      None \<Rightarrow> (Recovered, [])
                    | Some st \<Rightarrow>
                        (case QueryRow_Scan st x of
                           Inl err \<Rightarrow>
                             if err = ErrNoRows
                             then (Redirect (url l) StatusTemporaryRedirect, [x])
                             else (Failed StatusInternalServerError
                                     (''Could not fetch requested URL '' @ [CHR 0x22] @ x @ [CHR 0x22])
                                     (''http function received an error: '' @ Error err @ ''!'' @ [CHR 0x0A]),
                                   [x])
                         | Inr n \<Rightarrow>
                             if length n = 0
                             then (Redirect (url l) StatusTemporaryRedirect, [x])
                             else if p1 < length s
                             then (Redirect (n @ drop p1 s) StatusTemporaryRedirect, [x])
                             else (Redirect n StatusTemporaryRedirect, [x])))"

section \<open>Closing\<close>

text \<open>
  The outcome of a library call that can fail is decided outside the program (the driver,
  the network, the connections still open), so it is a parameter: the error each call
  reports when it is the one to do the work.
\<close>

record faults =
  stmt_close_err :: "error option"
  db_close_err :: "error option"
  shutdown_err :: "error option"
  server_close_err :: "error option"
  prepare_err :: "error option"
  exec_err :: "error option"
  rows_affected_err :: "error option"

text \<open>
  The library calls of \<^verbatim>\<open>Close\<close>. \<^verbatim>\<open>Stmt.Close\<close> and \<^verbatim>\<open>DB.Close\<close> of
  \<^verbatim>\<open>database/sql\<close> return \<^verbatim>\<open>nil\<close> at once on a handle that is already closed; otherwise
  they mark it closed and report what releasing it gave. \<^verbatim>\<open>Server.Shutdown\<close> marks the server
  as shutting down and reports the listeners' error or, with connections still active, the
  context's error. \<^verbatim>\<open>Server.Close\<close> closes the listeners and every connection; a server
  already closed has none left and reports \<^verbatim>\<open>nil\<close>.
\<close>

definition Stmt_Close :: "faults \<Rightarrow> Stmt \<Rightarrow> error option \<times> Stmt" where
  "Stmt_Close f s =
     (if stmt_closed s then (None, s) else (stmt_close_err f, s\<lparr>stmt_closed := True\<rparr>))"

definition DB_Close :: "faults \<Rightarrow> DB \<Rightarrow> error option \<times> DB" where
  "DB_Close f d =
     (if db_closed d then (None, d) else (db_close_err f, d\<lparr>db_closed := True\<rparr>))"

definition cancel :: "Context \<Rightarrow> Context" where
  "cancel c = c\<lparr>ctx_done := True\<rparr>"

definition Server_Shutdown :: "faults \<Rightarrow> Server \<Rightarrow> error option \<times> Server" where
  "Server_Shutdown f srv = (shutdown_err f, srv\<lparr>inShutdown := True\<rparr>)"

definition Server_Close :: "faults \<Rightarrow> Server \<Rightarrow> error option \<times> Server" where
  "Server_Close f srv =
     (if srv_closed srv then None else server_close_err f,
      srv\<lparr>inShutdown := True, srv_closed := True\<rparr>)"

text \<open>The calls \<^verbatim>\<open>Close\<close> makes on what the Linker owns.\<close>

datatype event = StmtClose | DBClose | Cancel | Shutdown | ServerClose

text \<open>
  \<^verbatim>\<open>Close\<close>: the returned error, the calls made in order, and the Linker afterwards. The
  \<^verbatim>\<open>select\<close> with a \<^verbatim>\<open>default\<close> branch tests whether the context is done.
\<close>

definition Close :: "faults \<Rightarrow> Linker \<Rightarrow> error option \<times> event list \<times> Linker" where
  "Close f l =
     (let (e1, t1, l1) =
            (case get l of
               None \<Rightarrow> (None, [], l)
             | Some s \<Rightarrow>
                 (let (e, s') = Stmt_Close f s in (e, [StmtClose], l\<lparr>get := Some s'\<rparr>)))
      in case e1 of
           Some err \<Rightarrow> (Some (newError ''unable to close get statement'' (Some err)), t1, l1)
         | None \<Rightarrow>
             (let (e2, t2, l2) =
                    (case db l1 of
                       None \<Rightarrow> (None, t1, l1)
                     | Some d \<Rightarrow>
                         (let (e, d') = DB_Close f d
                          in (e, t1 @ [DBClose], l1\<lparr>db := Some d'\<rparr>)))
              in case e2 of
                   Some err \<Rightarrow> (Some (newError ''unable to close database'' (Some err)), t2, l2)
                 | None \<Rightarrow>
                     (case ctx l2 of
                        None \<Rightarrow> (None, t2, l2)
                      | Some c \<Rightarrow>
                          if ctx_done c then
                            (let (e4, srv1) = Server_Shutdown f (Server l2);
                                 (e5, srv2) = Server_Close f srv1
                             in (e5, t2 @ [Shutdown, ServerClose], l2\<lparr>Server := srv2\<rparr>))
                          else
                            (let c' = cancel c;
                                 (e3, srv1) = Server_Shutdown f (Server l2);
                                 l3 = l2\<lparr>ctx := Some c', Server := srv1\<rparr>
                             in case e3 of
                                  Some err \<Rightarrow>
                                    (Some (newError ''unable to shutdown server'' (Some err)),
                                     t2 @ [Cancel, Shutdown], l3)
                                | None \<Rightarrow>
                                    (let (e4, srv2) = Server_Shutdown f srv1;
                                         (e5, srv3) = Server_Close f srv2
                                     in (e5, t2 @ [Cancel, Shutdown, Shutdown, ServerClose],
                                         l3\<lparr>Server := srv3\<rparr>))))))"

text \<open>The position of a call in the order \<^verbatim>\<open>Close\<close> makes its calls in.\<close>

fun event_rank :: "event \<Rightarrow> nat" where
  "event_rank StmtClose = 0"
| "event_rank DBClose = 1"
| "event_rank Cancel = 2"
| "event_rank Shutdown = 3"
| "event_rank ServerClose = 4"

text \<open>
  \<open>happens_before a b t\<close>: both calls occur in the trace \<open>t\<close>, and the first \<open>a\<close> comes
  before the first \<open>b\<close>.
\<close>

fun first_index :: "event \<Rightarrow> event list \<Rightarrow> nat option" where
  "first_index a [] = None"
| "first_index a (x # xs) =
     (if x = a then Some 0 else map_option Suc (first_index a xs))"

definition happens_before :: "event \<Rightarrow> event \<Rightarrow> event list \<Rightarrow> bool" where
  "happens_before a b t =
     (case (first_index a t, first_index b t) of
        (Some i, Some j) \<Rightarrow> i < j
      | _ \<Rightarrow> False)"

section \<open>Adding and deleting links\<close>

text \<open>
  The struct \<^verbatim>\<open>url.URL\<close> and the functions of the libraries \<^verbatim>\<open>net/url\<close> and \<^verbatim>\<open>strings\<close>
  that \<^verbatim>\<open>Add\<close> calls. \<^verbatim>\<open>IsAbs\<close> is the test \<^verbatim>\<open>u.Scheme != ""\<close>; parsing, printing and
  trimming are parameters.
\<close>

record URL =
  Scheme :: string
  Opaque :: string
  Host :: string
  Path :: string
  RawQuery :: string
  Fragment :: string

definition IsAbs :: "URL \<Rightarrow> bool" where
  "IsAbs u = (Scheme u \<noteq> [])"

record netlib =
  url_Parse :: "string \<Rightarrow> error + URL"
  url_String :: "URL \<Rightarrow> string"
  TrimSpace :: "string \<Rightarrow> string"

text \<open>
  The statement \<^verbatim>\<open>q\<close> of \<^verbatim>\<open>Add\<close> and \<^verbatim>\<open>Delete\<close>: \<^verbatim>\<open>Exec\<close> with the arguments, then
  \<^verbatim>\<open>RowsAffected\<close> when \<^verbatim>\<open>Exec\<close> gave no error, then \<^verbatim>\<open>q.Close()\<close>, whose result is
  dropped. The result is the value of \<^verbatim>\<open>err\<close> at the test and the connection's log.
\<close>

definition exec_and_close :: "faults \<Rightarrow> DB \<Rightarrow> string \<Rightarrow> string list \<Rightarrow> error option \<times> DB" where
  "exec_and_close f d q args =
     (let err = (case exec_err f of None \<Rightarrow> rows_affected_err f | Some e \<Rightarrow> Some e)
      in (err, d\<lparr>calls := calls d @ [PrepareCall q, ExecCall q args, CloseCall q]\<rparr>))"

definition Add :: "netlib \<Rightarrow> faults \<Rightarrow> Linker \<Rightarrow> string \<Rightarrow> string \<Rightarrow> error option \<times> Linker" where
  "Add lib f l n u =
     (case db l of
        None \<Rightarrow> (Some ErrNotConfigured, l)
      | Some d \<Rightarrow>
          if \<not> isNameValid n then (Some ErrInvalidName, l)
          else
            (case url_Parse lib (TrimSpace lib u) of
               Inl err \<Rightarrow>
                 (Some (newError (''invalid URL '' @ [CHR 0x22] @ u @ [CHR 0x22]) (Some err)), l)
             | Inr p0 \<Rightarrow>
                 (let p = (if \<not> IsAbs p0 then p0\<lparr>Scheme := ''https''\<rparr> else p0)
                  in case prepare_err f of
                       Some err \<Rightarrow>
                         (Some (newError ''unable to prepare add statement'' (Some err)),
                          l\<lparr>db := Some (d\<lparr>calls := calls d @ [PrepareCall sqlAdd]\<rparr>)\<rparr>)
                     | None \<Rightarrow>
                         (let (err, d') = exec_and_close f d sqlAdd [n, url_String lib p]
                          in case err of
                               Some e \<Rightarrow>
                                 (Some (newError ''unable to execute add statement'' (Some e)),
                                  l\<lparr>db := Some d'\<rparr>)
                             | None \<Rightarrow> (None, l\<lparr>db := Some d'\<rparr>)))))"

definition Delete :: "faults \<Rightarrow> Linker \<Rightarrow> string \<Rightarrow> error option \<times> Linker" where
  "Delete f l n =
     (case db l of
        None \<Rightarrow> (Some ErrNotConfigured, l)
      | Some d \<Rightarrow>
          if \<not> isNameValid n then (Some ErrInvalidName, l)
          else
            (case prepare_err f of
               Some err \<Rightarrow>
                 (Some (newError ''unable to prepare delete statement'' (Some err)),
                  l\<lparr>db := Some (d\<lparr>calls := calls d @ [PrepareCall sqlDelete]\<rparr>)\<rparr>)
             | None \<Rightarrow>
                 (let (err, d') = exec_and_close f d sqlDelete [n]
                  in case err of
                       Some e \<Rightarrow>
                         (Some (newError ''unable to execute delete statement'' (Some e)),
                          l\<lparr>db := Some d'\<rparr>)
                     | None \<Rightarrow> (None, l\<lparr>db := Some d'\<rparr>))))"

section \<open>A running instance\<close>

text \<open>
  The instance of the default configuration: the default target
  \<^verbatim>\<open>https://duckduckgo.com\<close>, one link \<^verbatim>\<open>docs\<close>, a key \<^verbatim>\<open>down\<close> on which the query
  fails, and a listening server whose context is not done.
\<close>

definition defaultURL :: string where
  "defaultURL = ''https://duckduckgo.com''"

definition links_scan :: "string \<Rightarrow> error + string" where
  "links_scan k =
     (if k = ''docs'' then Inr ''https://example.com/docs''
      else if k = ''down'' then Inl (External ''invalid connection'')
      else Inl ErrNoRows)"

definition listening :: Linker where
  "listening =
     \<lparr>db = Some \<lparr>db_closed = False, calls = []\<rparr>,
      ctx = Some \<lparr>ctx_done = False\<rparr>,
      get = Some \<lparr>stmt_closed = False, QueryRow_Scan = links_scan\<rparr>,
      url = defaultURL,
      Server = \<lparr>inShutdown = False, srv_closed = False\<rparr>\<rparr>"

definition unconfigured :: Linker where
  "unconfigured =
     \<lparr>db = None, ctx = None, get = None, url = [],
      Server = \<lparr>inShutdown = False, srv_closed = False\<rparr>\<rparr>"

definition no_faults :: faults where
  "no_faults =
     \<lparr>stmt_close_err = None, db_close_err = None, shutdown_err = None,
      server_close_err = None, prepare_err = None, exec_err = None,
      rows_affected_err = None\<rparr>"

definition stmt_close_fails :: faults where
  "stmt_close_fails = no_faults\<lparr>stmt_close_err := Some (External ''bad connection'')\<rparr>"

text \<open>
  A stand-in for the library, for running \<^verbatim>\<open>Add\<close> on an input: it reads a URL with no
  scheme as a path, as \<^verbatim>\<open>url.Parse\<close> does for \<^verbatim>\<open>example.com/docs\<close>, and prints the scheme
  in front of it.
\<close>

definition path_only_lib :: netlib where
  "path_only_lib =
     \<lparr>url_Parse = (\<lambda>s. Inr \<lparr>Scheme = [], Opaque = [], Host = [], Path = s,
                               RawQuery = [], Fragment = []\<rparr>),
      url_String = (\<lambda>u. if Scheme u = [] then Path u else Scheme u @ ''://'' @ Path u),
      TrimSpace = (\<lambda>s. rev (dropWhile (\<lambda>c. c = CHR '' '') (rev (dropWhile (\<lambda>c. c = CHR '' '') s))))\<rparr>"

text \<open>
  The state \<^emph>\<open>Closed\<close> of the lifecycle: the lookup statement and the connection, where
  there are any, are closed, the context is done and the server is closed.
\<close>

definition torn_down :: "Linker \<Rightarrow> bool" where
  "torn_down l =
     ((case get l of None \<Rightarrow> True | Some s \<Rightarrow> stmt_closed s)
      \<and> (case db l of None \<Rightarrow> True | Some d \<Rightarrow> db_closed d)
      \<and> (case ctx l of None \<Rightarrow> False | Some c \<Rightarrow> ctx_done c)
      \<and> inShutdown (Server l) \<and> srv_closed (Server l))"

section \<open>Properties of the name validator\<close>

lemma isNameValid_loop_iff:
  "isNameValid_loop vs \<longleftrightarrow> (\<forall>v \<in> set vs. 48 \<le> v \<and> v \<le> 123 \<and> v \<notin> set blacklist)"
  by (induction vs) auto

lemma rune_alnum_iff:
  "rune_alnum v \<longleftrightarrow> 48 \<le> v \<and> v \<le> 123 \<and> v \<notin> set blacklist"
  unfolding rune_alnum_def blacklist_def by (simp; arith)

lemma decodeRune_ascii:
  "of_char c < (128::nat) \<Longrightarrow> decodeRune (c # cs) = (int (of_char c), 1)"
  by simp

lemma decodeRune_non_ascii:
  "\<not> of_char c < (128::nat) \<Longrightarrow> 128 \<le> fst (decodeRune (c # cs))"
  by (auto simp: Let_def RuneError_def byte_in_def split: list.splits)

lemma alnum_rune:
  "of_char c < (128::nat) \<Longrightarrow> rune_alnum (int (of_char c)) = alnum c"
  by (auto simp: rune_alnum_def alnum_def Let_def)

lemma alnum_ascii: "alnum c \<Longrightarrow> of_char c < (128::nat)"
  by (auto simp: alnum_def Let_def)

lemma runes_alnum:
  "(\<forall>v \<in> set (runes s). rune_alnum v) \<longleftrightarrow> (\<forall>c \<in> set s. alnum c)"
proof (induction s rule: runes.induct)
  case 1
  show ?case by simp
next
  case (2 c cs)
  show ?case
  proof (cases "of_char c < (128::nat)")
    case True
    then have d: "decodeRune (c # cs) = (int (of_char c), 1)"
      by (rule decodeRune_ascii)
    from 2 d have "(\<forall>v \<in> set (runes cs). rune_alnum v) \<longleftrightarrow> (\<forall>c \<in> set cs. alnum c)"
      by simp
    with d True show ?thesis
      by (simp add: alnum_rune del: decodeRune.simps)
  next
    case False
    then have "128 \<le> fst (decodeRune (c # cs))"
      by (rule decodeRune_non_ascii)
    then have "\<not> rune_alnum (fst (decodeRune (c # cs)))"
      by (simp add: rune_alnum_def)
    moreover from False have "\<not> alnum c"
      using alnum_ascii by blast
    ultimately show ?thesis
      by (simp del: decodeRune.simps)
  qed
qed

lemma isNameValid_alnum: "isNameValid s \<longleftrightarrow> (\<forall>c \<in> set s. alnum c)"
  by (simp add: isNameValid_def isNameValid_loop_iff rune_alnum_iff [symmetric] runes_alnum)

text \<open>
  C7: \<^verbatim>\<open>isNameValid(s)\<close> is true if and only if every character the loop visits has a
  code point from 48 to 123 and is none of the listed punctuation characters. The empty
  string is valid, every string of ASCII letters and digits is valid, and every string
  with a listed punctuation character or a control character is rejected.
\<close>

theorem isNameValid_band_blacklist:
  "(isNameValid s \<longleftrightarrow> (\<forall>v \<in> set (runes s). 48 \<le> v \<and> v \<le> 123 \<and> v \<notin> set blacklist))
   \<and> isNameValid []
   \<and> ((\<forall>c \<in> set s. alnum c) \<longrightarrow> isNameValid s)
   \<and> ((\<exists>v \<in> set (runes s). v \<in> set blacklist \<or> v < 32 \<or> (127 \<le> v \<and> v \<le> 159))
        \<longrightarrow> \<not> isNameValid s)"
proof -
  have a: "isNameValid s \<longleftrightarrow> (\<forall>v \<in> set (runes s). 48 \<le> v \<and> v \<le> 123 \<and> v \<notin> set blacklist)"
    by (simp add: isNameValid_def isNameValid_loop_iff)
  have b: "isNameValid []"
    by (simp add: isNameValid_def)
  have c: "(\<forall>c \<in> set s. alnum c) \<longrightarrow> isNameValid s"
    by (simp add: isNameValid_alnum)
  have d: "(\<exists>v \<in> set (runes s). v \<in> set blacklist \<or> v < 32 \<or> (127 \<le> v \<and> v \<le> 159))
        \<longrightarrow> \<not> isNameValid s"
    unfolding a by fastforce
  from a b c d show ?thesis by blast
qed

theorem isNameValid_band_blacklist_witness:
  "isNameValid ''docs42'' \<and> \<not> isNameValid ''a_b'' \<and> \<not> isNameValid [CHR ''a'', CHR 0x09]"
  using isNameValid_band_blacklist [of "''docs42''"] isNameValid_band_blacklist [of "''a_b''"]
    isNameValid_band_blacklist [of "[CHR ''a'', CHR 0x09]"]
  by (simp add: alnum_def blacklist_def)

section \<open>The validator and the pattern accept the same names\<close>

lemma takeWhile_length_all:
  "length (takeWhile P xs) = length xs \<longleftrightarrow> (\<forall>x \<in> set xs. P x)"
  by (induction xs) auto

lemma FindStringIndex_slash:
  "regCheckURL_FindStringIndex (CHR ''/'' # s) =
     (if takeWhile alnum s \<noteq> [] then Some (0, 1 + length (takeWhile alnum s)) else None)"
  by (simp add: regCheckURL_FindStringIndex_def)

text \<open>
  C10: \<^verbatim>\<open>isNameValid(s)\<close> is true exactly when every character of \<open>s\<close> is an ASCII
  letter or digit, on the bytes of the string as on the runes the loop visits. So the
  names the validator accepts are the ones the pattern of the path matcher takes whole: a
  non-empty string is valid exactly when the match on the slash followed by the string
  spans all of it.
\<close>

theorem isNameValid_iff_alnum:
  "(isNameValid s \<longleftrightarrow> (\<forall>c \<in> set s. alnum c))
   \<and> (isNameValid s \<longleftrightarrow> (\<forall>v \<in> set (runes s). rune_alnum v))
   \<and> (s \<noteq> [] \<and> isNameValid s
        \<longleftrightarrow> regCheckURL_FindStringIndex (CHR ''/'' # s) = Some (0, 1 + length s))"
proof -
  have a: "isNameValid s \<longleftrightarrow> (\<forall>c \<in> set s. alnum c)"
    by (rule isNameValid_alnum)
  have b: "isNameValid s \<longleftrightarrow> (\<forall>v \<in> set (runes s). rune_alnum v)"
    by (simp add: a runes_alnum)
  have c: "s \<noteq> [] \<and> isNameValid s
        \<longleftrightarrow> regCheckURL_FindStringIndex (CHR ''/'' # s) = Some (0, 1 + length s)"
  proof (cases "takeWhile alnum s = []")
    case True
    then show ?thesis
      by (cases s) (auto simp: FindStringIndex_slash isNameValid_alnum split: if_splits)
  next
    case False
    then have "s \<noteq> []" by auto
    with False show ?thesis
      by (simp add: FindStringIndex_slash a takeWhile_length_all)
  qed
  from a b c show ?thesis by blast
qed

theorem isNameValid_iff_alnum_witness:
  "isNameValid ''Docs42'' \<and> \<not> isNameValid ''do-cs''
   \<and> regCheckURL_FindStringIndex ''/Docs42'' = Some (0, 7)"
proof -
  have "isNameValid ''Docs42''"
    using isNameValid_iff_alnum [of "''Docs42''"] by (simp add: alnum_def)
  moreover from this
  have "regCheckURL_FindStringIndex ''/Docs42'' = Some (0, 1 + length ''Docs42'')"
    using isNameValid_iff_alnum [of "''Docs42''"] by blast
  moreover have "\<not> isNameValid ''do-cs''"
    using isNameValid_iff_alnum [of "''do-cs''"] by (simp add: alnum_def)
  ultimately show ?thesis by simp
qed

section \<open>Properties of the request handler\<close>

text \<open>
  C6: for every request whose URI has length at most 1, and for every request whose
  HTML-escaped URI has no match of the pattern that starts at index 0 and spans more than
  one character, \<^verbatim>\<open>serve\<close> redirects with status 307 to the configured default URL and
  does not run the lookup.
\<close>

theorem serve_default_without_lookup:
  "length uri \<le> 1
   \<or> \<not> (\<exists>e. regCheckURL_FindStringIndex (EscapeString uri) = Some (0, e) \<and> 1 < e)
   \<Longrightarrow> serve l uri = (Redirect (url l) 307, [])"
  by (auto simp: serve_def StatusTemporaryRedirect_def Let_def split: option.splits)

theorem serve_default_without_lookup_witness:
  "serve listening ''/'' = (Redirect defaultURL 307, [])
   \<and> regCheckURL_FindStringIndex (EscapeString ''/?q=docs'') = None
   \<and> serve listening ''/?q=docs'' = (Redirect defaultURL 307, [])"
  using serve_default_without_lookup [of "''/''" listening]
    serve_default_without_lookup [of "''/?q=docs''" listening]
  by (simp add: listening_def regCheckURL_FindStringIndex_def EscapeString_def escapeChar_def alnum_def)

lemma specials_not_alnum:
  "\<not> alnum CHR ''&''" "\<not> alnum CHR 0x27" "\<not> alnum CHR ''<''" "\<not> alnum CHR ''>''"
  "\<not> alnum CHR 0x22" "\<not> alnum CHR ''/''"
  by (simp_all add: alnum_def)

lemma escapeChar_alnum: "alnum c \<Longrightarrow> escapeChar c = [c]"
  unfolding escapeChar_def using specials_not_alnum by auto

lemma escapeChar_hd: "escapeChar c = [c] \<or> (\<not> alnum c \<and> (\<exists>t. escapeChar c = CHR ''&'' # t))"
  unfolding escapeChar_def using specials_not_alnum by auto

lemma takeWhile_EscapeString: "takeWhile alnum (EscapeString t) = takeWhile alnum t"
proof (induction t)
  case Nil
  show ?case by (simp add: EscapeString_def)
next
  case (Cons c t)
  from escapeChar_hd [of c] show ?case
  proof
    assume "escapeChar c = [c]"
    with Cons show ?thesis by (simp add: EscapeString_def)
  next
    assume "\<not> alnum c \<and> (\<exists>t. escapeChar c = CHR ''&'' # t)"
    then obtain u where "\<not> alnum c" and "escapeChar c = CHR ''&'' # u" by blast
    then show ?thesis by (simp add: EscapeString_def specials_not_alnum)
  qed
qed

lemma EscapeString_alnum: "\<forall>c \<in> set t. alnum c \<Longrightarrow> EscapeString t = t"
  by (induction t) (simp_all add: EscapeString_def escapeChar_alnum)

lemma EscapeString_append: "EscapeString (a @ b) = EscapeString a @ EscapeString b"
  by (simp add: EscapeString_def)

lemma EscapeString_plain: "\<forall>c \<in> set t. escapeChar c = [c] \<Longrightarrow> EscapeString t = t"
  by (induction t) (simp_all add: EscapeString_def)

lemma EscapeString_slash: "EscapeString (CHR ''/'' # t) = CHR ''/'' # EscapeString t"
  by (simp add: EscapeString_def escapeChar_def)

lemma takeWhile_prefix_all:
  assumes "length (takeWhile P (xs @ ys)) = length xs"
  shows "\<forall>x \<in> set xs. P x"
proof (rule ccontr)
  assume "\<not> (\<forall>x \<in> set xs. P x)"
  then obtain x where x: "x \<in> set xs" "\<not> P x" by blast
  then have "takeWhile P (xs @ ys) = takeWhile P xs"
    by (simp add: takeWhile_append1)
  with assms have "length (takeWhile P xs) = length xs" by simp
  then have "\<forall>x \<in> set xs. P x" by (simp only: takeWhile_length_all)
  with x show False by blast
qed

lemma match_starts_with_slash:
  "regCheckURL_FindStringIndex s = Some (p0, e) \<Longrightarrow> \<exists>c t. s = CHR ''/'' # c # t \<and> alnum c"
  unfolding regCheckURL_FindStringIndex_def
  by (cases s; cases "tl s") (auto split: if_splits)


lemma match_long_uri:
  assumes "regCheckURL_FindStringIndex (EscapeString uri) = Some (p0, e)"
  shows "1 < length uri"
proof -
  from assms obtain c t where s: "EscapeString uri = CHR ''/'' # c # t"
    using match_starts_with_slash by blast
  show ?thesis
  proof (cases uri)
    case Nil
    with s show ?thesis by (simp add: EscapeString_def)
  next
    case (Cons d u)
    show ?thesis
    proof (cases u)
      case Nil
      with Cons s have "escapeChar d = CHR ''/'' # c # t"
        by (simp add: EscapeString_def)
      with escapeChar_hd [of d] show ?thesis by auto
    next
      case (Cons d' u')
      with \<open>uri = d # u\<close> show ?thesis by simp
    qed
  qed
qed

text \<open>
  Past the two early returns, with a statement to run: what \<^verbatim>\<open>serve\<close> does with the
  outcome of the lookup.
\<close>

lemma serve_lookup:
  assumes m: "regCheckURL_FindStringIndex (EscapeString uri) = Some (0, e)"
      and e: "1 < e"
      and g: "get l = Some st"
      and x: "x = take (e - 1) (drop 1 (EscapeString uri))"
  shows "serve l uri =
      (case QueryRow_Scan st x of
         Inl err \<Rightarrow>
           if err = ErrNoRows then (Redirect (url l) 307, [x])
           else (Failed 500 (''Could not fetch requested URL '' @ [CHR 0x22] @ x @ [CHR 0x22])
                   (''http function received an error: '' @ Error err @ ''!'' @ [CHR 0x0A]), [x])
       | Inr n \<Rightarrow>
           if length n = 0 then (Redirect (url l) 307, [x])
           else if e < length (EscapeString uri)
           then (Redirect (n @ drop e (EscapeString uri)) 307, [x])
           else (Redirect n 307, [x]))"
proof -
  from m have len: "\<not> length uri \<le> 1"
    using match_long_uri by fastforce
  have p: "\<not> ((0::nat) \<noteq> 0 \<or> e \<le> 1)"
    using e by simp
  show ?thesis
    unfolding serve_def Let_def StatusTemporaryRedirect_def StatusInternalServerError_def
    by (simp only: len m g p x [symmetric] if_False option.case prod.case)
qed

lemma links_scan_values:
  "links_scan ''docs'' = Inr ''https://example.com/docs''"
  "links_scan ''down'' = Inl (External ''invalid connection'')"
  "links_scan ''missing'' = Inl ErrNoRows"
  by (simp_all add: links_scan_def)

lemma listening_fields:
  "get listening = Some \<lparr>stmt_closed = False, QueryRow_Scan = links_scan\<rparr>"
  "url listening = defaultURL"
  by (simp_all add: listening_def)

lemma match_docs: "regCheckURL_FindStringIndex (EscapeString ''/docs'') = Some (0, 5)"
  by (simp add: EscapeString_def escapeChar_def regCheckURL_FindStringIndex_def alnum_def)

lemma match_down: "regCheckURL_FindStringIndex (EscapeString ''/down'') = Some (0, 5)"
  by (simp add: EscapeString_def escapeChar_def regCheckURL_FindStringIndex_def alnum_def)

lemma match_missing: "regCheckURL_FindStringIndex (EscapeString ''/missing'') = Some (0, 8)"
  by (simp add: EscapeString_def escapeChar_def regCheckURL_FindStringIndex_def alnum_def)

text \<open>
  C2: \<^verbatim>\<open>serve\<close> tells three outcomes of the lookup apart. On \<^verbatim>\<open>sql.ErrNoRows\<close> it
  redirects with status 307 to the configured default URL. On any other error it answers
  500 with a plain body that names the key, writes the error to the error stream and does
  not redirect. On a non-empty URL it redirects with status 307 to that URL, followed by
  what the URI has after the matched span.
\<close>

theorem serve_three_outcomes:
  assumes m: "regCheckURL_FindStringIndex (EscapeString uri) = Some (0, e)"
      and e: "1 < e"
      and g: "get l = Some st"
      and x: "x = take (e - 1) (drop 1 (EscapeString uri))"
  shows "(QueryRow_Scan st x = Inl ErrNoRows \<longrightarrow> serve l uri = (Redirect (url l) 307, [x]))
    \<and> (\<forall>err. QueryRow_Scan st x = Inl err \<and> err \<noteq> ErrNoRows \<longrightarrow>
          serve l uri =
            (Failed 500 (''Could not fetch requested URL '' @ [CHR 0x22] @ x @ [CHR 0x22])
               (''http function received an error: '' @ Error err @ ''!'' @ [CHR 0x0A]), [x]))
    \<and> (\<forall>n. QueryRow_Scan st x = Inr n \<and> n \<noteq> [] \<longrightarrow>
          serve l uri = (Redirect (n @ drop e (EscapeString uri)) 307, [x]))"
  unfolding serve_lookup [OF m e g x] by (auto simp del: append.simps)

theorem serve_three_outcomes_witness:
  "serve listening ''/missing'' = (Redirect defaultURL 307, [''missing''])
   \<and> serve listening ''/down'' =
       (Failed 500 (''Could not fetch requested URL '' @ [CHR 0x22] @ ''down'' @ [CHR 0x22])
          (''http function received an error: invalid connection!'' @ [CHR 0x0A]), [''down''])
   \<and> serve listening ''/docs'' = (Redirect ''https://example.com/docs'' 307, [''docs''])"
proof -
  have a: "serve listening ''/missing'' = (Redirect defaultURL 307, [''missing''])"
    using serve_three_outcomes [OF match_missing _ listening_fields(1), of "''missing''"]
    by (simp add: links_scan_values listening_fields EscapeString_def escapeChar_def)
  have b: "serve listening ''/down'' =
       (Failed 500 (''Could not fetch requested URL '' @ [CHR 0x22] @ ''down'' @ [CHR 0x22])
          (''http function received an error: invalid connection!'' @ [CHR 0x0A]), [''down''])"
    using serve_three_outcomes [OF match_down _ listening_fields(1), of "''down''"]
    by (simp add: links_scan_values EscapeString_def escapeChar_def)
  have c: "serve listening ''/docs'' = (Redirect ''https://example.com/docs'' 307, [''docs''])"
    using serve_three_outcomes [OF match_docs _ listening_fields(1), of "''docs''"]
    by (simp add: links_scan_values EscapeString_def escapeChar_def)
  from a b c show ?thesis by blast
qed

lemma match_docs_extra:
  "regCheckURL_FindStringIndex (EscapeString (CHR ''/'' # ''docs'' @ ''/extra?q=1''))
     = Some (0, 1 + length ''docs'')"
  by (simp add: EscapeString_def escapeChar_def regCheckURL_FindStringIndex_def alnum_def)

lemma match_docs_query:
  "regCheckURL_FindStringIndex (EscapeString (CHR ''/'' # ''docs'' @ ''?q=1&r=2''))
     = Some (0, 1 + length ''docs'')"
  by (simp add: EscapeString_def escapeChar_def regCheckURL_FindStringIndex_def alnum_def)

lemma match_docs_bare:
  "regCheckURL_FindStringIndex (EscapeString (CHR ''/'' # ''docs'' @ []))
     = Some (0, 1 + length ''docs'')"
  by (simp add: EscapeString_def escapeChar_def regCheckURL_FindStringIndex_def alnum_def)

text \<open>
  C1 (as amended): for every request URI \<^verbatim>\<open>"/" + name + suffix\<close> on whose escaped form
  the pattern matches the span of \<^verbatim>\<open>"/" + name\<close>, when the lookup of \<open>name\<close> gives a
  non-empty URL \<open>U\<close>, \<^verbatim>\<open>serve\<close> redirects with status 307 to \<open>U\<close> followed by the
  HTML-escaped suffix. That is \<open>U\<close> itself when the suffix is empty, and \<open>U\<close> followed by
  the suffix unchanged when the suffix has none of the characters \<^verbatim>\<open>& ' < > "\<close>.
\<close>

theorem serve_appends_escaped_suffix:
  assumes m: "regCheckURL_FindStringIndex (EscapeString (CHR ''/'' # name @ suffix))
                = Some (0, 1 + length name)"
      and g: "get l = Some st"
      and q: "QueryRow_Scan st name = Inr U"
      and U: "U \<noteq> []"
  shows "serve l (CHR ''/'' # name @ suffix) = (Redirect (U @ EscapeString suffix) 307, [name])
    \<and> ((\<forall>c \<in> set suffix. escapeChar c = [c]) \<longrightarrow>
          serve l (CHR ''/'' # name @ suffix) = (Redirect (U @ suffix) 307, [name]))"
proof -
  let ?uri = "CHR ''/'' # name @ suffix"
  from m have ne: "takeWhile alnum (name @ suffix) \<noteq> []"
    and tw: "length (takeWhile alnum (name @ suffix)) = length name"
    by (simp_all add: EscapeString_slash FindStringIndex_slash takeWhile_EscapeString
        split: if_splits)
  from tw have al: "\<forall>c \<in> set name. alnum c"
    by (rule takeWhile_prefix_all)
  then have s: "EscapeString ?uri = CHR ''/'' # name @ EscapeString suffix"
    by (simp add: EscapeString_slash EscapeString_append EscapeString_alnum)
  have x: "name = take (1 + length name - 1) (drop 1 (EscapeString ?uri))"
    by (simp add: s)
  from ne tw have e: "1 < 1 + length name"
    by (cases name) simp_all
  have d: "drop (1 + length name) (EscapeString ?uri) = EscapeString suffix"
    by (simp add: s)
  have "serve l ?uri =
      (if 1 + length name < length (EscapeString ?uri)
       then (Redirect (U @ EscapeString suffix) 307, [name])
       else (Redirect U 307, [name]))"
    unfolding serve_lookup [OF m e g x] d using q U by simp
  moreover have "\<not> 1 + length name < length (EscapeString ?uri) \<Longrightarrow> EscapeString suffix = []"
    by (simp add: s)
  ultimately have a: "serve l ?uri = (Redirect (U @ EscapeString suffix) 307, [name])"
    by (cases "1 + length name < length (EscapeString ?uri)") simp_all
  have b: "(\<forall>c \<in> set suffix. escapeChar c = [c]) \<longrightarrow>
          serve l ?uri = (Redirect (U @ suffix) 307, [name])"
    using a by (simp add: EscapeString_plain)
  from a b show ?thesis by blast
qed

theorem serve_appends_escaped_suffix_witness:
  "serve listening ''/docs/extra?q=1'' = (Redirect ''https://example.com/docs/extra?q=1'' 307, [''docs''])
   \<and> serve listening ''/docs?q=1&r=2'' = (Redirect ''https://example.com/docs?q=1&amp;r=2'' 307, [''docs''])
   \<and> serve listening ''/docs'' = (Redirect ''https://example.com/docs'' 307, [''docs''])"
proof -
  have q: "QueryRow_Scan \<lparr>stmt_closed = False, QueryRow_Scan = links_scan\<rparr> ''docs''
             = Inr ''https://example.com/docs''"
    by (simp add: links_scan_values)
  have u: "''https://example.com/docs'' \<noteq> []" by simp
  have a: "serve listening ''/docs/extra?q=1'' = (Redirect ''https://example.com/docs/extra?q=1'' 307, [''docs''])"
    using serve_appends_escaped_suffix [OF match_docs_extra listening_fields(1) q u]
    by (simp add: EscapeString_def escapeChar_def)
  have b: "serve listening ''/docs?q=1&r=2'' = (Redirect ''https://example.com/docs?q=1&amp;r=2'' 307, [''docs''])"
    using serve_appends_escaped_suffix [OF match_docs_query listening_fields(1) q u]
    by (simp add: EscapeString_def escapeChar_def)
  have c: "serve listening ''/docs'' = (Redirect ''https://example.com/docs'' 307, [''docs''])"
    using serve_appends_escaped_suffix [OF match_docs_bare listening_fields(1) q u]
    by (simp add: EscapeString_def escapeChar_def)
  from a b c show ?thesis by blast
qed

theorem serve_suffix_verbatim_counterexample:
  "regCheckURL_FindStringIndex (EscapeString (CHR ''/'' # ''docs'' @ ''?q=1&r=2''))
     = Some (0, 1 + length ''docs'')
   \<and> get listening = Some \<lparr>stmt_closed = False, QueryRow_Scan = links_scan\<rparr>
   \<and> links_scan ''docs'' = Inr ''https://example.com/docs''
   \<and> serve listening (CHR ''/'' # ''docs'' @ ''?q=1&r=2'')
       = (Redirect ''https://example.com/docs?q=1&amp;r=2'' 307, [''docs''])
   \<and> serve listening (CHR ''/'' # ''docs'' @ ''?q=1&r=2'')
       \<noteq> (Redirect (''https://example.com/docs'' @ ''?q=1&r=2'') 307, [''docs''])"
proof -
  have s: "serve listening (CHR ''/'' # ''docs'' @ ''?q=1&r=2'')
       = (Redirect ''https://example.com/docs?q=1&amp;r=2'' 307, [''docs''])"
    using serve_lookup [OF match_docs_query _ listening_fields(1), of "''docs''"]
    by (simp add: links_scan_values EscapeString_def escapeChar_def)
  show ?thesis
    unfolding s using match_docs_query listening_fields(1) links_scan_values(1) by simp
qed

section \<open>Properties of closing\<close>

lemmas Close_defs = Close_def Stmt_Close_def DB_Close_def Server_Shutdown_def Server_Close_def
  cancel_def Let_def

lemma Close_trace_cases:
  "fst (snd (Close f l)) \<in>
     {[], [StmtClose], [DBClose], [StmtClose, DBClose],
      [Shutdown, ServerClose], [StmtClose, Shutdown, ServerClose],
      [DBClose, Shutdown, ServerClose], [StmtClose, DBClose, Shutdown, ServerClose],
      [Cancel, Shutdown], [StmtClose, Cancel, Shutdown],
      [DBClose, Cancel, Shutdown], [StmtClose, DBClose, Cancel, Shutdown],
      [Cancel, Shutdown, Shutdown, ServerClose], [StmtClose, Cancel, Shutdown, Shutdown, ServerClose],
      [DBClose, Cancel, Shutdown, Shutdown, ServerClose],
      [StmtClose, DBClose, Cancel, Shutdown, Shutdown, ServerClose]}"
  unfolding Close_defs
  by (simp split: option.splits if_splits prod.splits)


lemma listening_parts:
  "get listening \<noteq> None" "db listening \<noteq> None"
  "\<exists>c. ctx listening = Some c \<and> \<not> ctx_done c"
  by (simp_all add: listening_def)

lemma Close_listening:
  "Close no_faults listening =
     (None, [StmtClose, DBClose, Cancel, Shutdown, Shutdown, ServerClose],
      listening\<lparr>get := Some \<lparr>stmt_closed = True, QueryRow_Scan = links_scan\<rparr>,
                db := Some \<lparr>db_closed = True, calls = []\<rparr>,
                ctx := Some \<lparr>ctx_done = True\<rparr>,
                Server := \<lparr>inShutdown = True, srv_closed = True\<rparr>\<rparr>)"
  by (simp add: Close_defs listening_def no_faults_def)

text \<open>
  C3 (as amended): during \<^verbatim>\<open>Close\<close> the calls are made in this order: the prepared lookup
  statement is closed, then the database connection is closed, then the shared context is
  cancelled, then the server is stopped (\<^verbatim>\<open>Shutdown\<close>, then \<^verbatim>\<open>Shutdown\<close> again and
  \<^verbatim>\<open>Close\<close>). A call that is not made leaves the order of the others unchanged, and a
  \<^verbatim>\<open>Close\<close> without error of a Linker with a statement, a connection and a context that
  is not done makes all of them.
\<close>

theorem Close_call_order:
  "sorted (map event_rank (fst (snd (Close f l))))
   \<and> (get l \<noteq> None \<and> db l \<noteq> None \<and> (\<exists>c. ctx l = Some c \<and> \<not> ctx_done c)
        \<and> fst (Close f l) = None
      \<longrightarrow> fst (snd (Close f l)) = [StmtClose, DBClose, Cancel, Shutdown, Shutdown, ServerClose])"
proof -
  have a: "sorted (map event_rank (fst (snd (Close f l))))"
    using Close_trace_cases [of f l] by auto
  have b: "get l \<noteq> None \<and> db l \<noteq> None \<and> (\<exists>c. ctx l = Some c \<and> \<not> ctx_done c)
        \<and> fst (Close f l) = None
      \<longrightarrow> fst (snd (Close f l)) = [StmtClose, DBClose, Cancel, Shutdown, Shutdown, ServerClose]"
    unfolding Close_defs newError_def
    by (auto split: option.splits if_splits prod.splits)
  from a b show ?thesis by blast
qed

theorem Close_call_order_witness:
  "fst (snd (Close no_faults listening))
     = [StmtClose, DBClose, Cancel, Shutdown, Shutdown, ServerClose]
   \<and> sorted (map event_rank (fst (snd (Close no_faults listening))))"
  using Close_call_order [of no_faults listening] listening_parts
  by (simp add: Close_listening)

theorem Close_claimed_order_counterexample:
  "fst (snd (Close no_faults listening))
     = [StmtClose, DBClose, Cancel, Shutdown, Shutdown, ServerClose]
   \<and> \<not> happens_before Cancel StmtClose (fst (snd (Close no_faults listening)))
   \<and> \<not> happens_before Shutdown StmtClose (fst (snd (Close no_faults listening)))
   \<and> happens_before DBClose Cancel (fst (snd (Close no_faults listening)))"
  by (simp add: Close_listening happens_before_def)








lemma Close_torn_down:
  assumes "Close f l = (None, t, l')" and "ctx l \<noteq> None"
  shows "torn_down l'"
  using assms unfolding Close_defs torn_down_def
  by (auto split: option.splits if_splits prod.splits)

lemma torn_down_Close:
  assumes "torn_down l"
  shows "fst (Close f l) = None \<and> snd (snd (Close f l)) = l"
  using assms unfolding Close_defs torn_down_def
  by (cases l; cases "Server l") (auto split: option.splits)

text \<open>
  C5: after a first \<^verbatim>\<open>Close\<close> has run to its end without error on a Linker with a
  context, the context is done, and a second \<^verbatim>\<open>Close\<close> returns no error and leaves the
  Linker as the first \<^verbatim>\<open>Close\<close> left it, whatever the library calls would report on
  resources that are still open.
\<close>

theorem Close_twice:
  assumes "Close f l = (None, t, l')" and "ctx l \<noteq> None"
  shows "(\<exists>c. ctx l' = Some c \<and> ctx_done c)
     \<and> fst (Close f' l') = None \<and> snd (snd (Close f' l')) = l'"
proof -
  from assms have td: "torn_down l'" by (rule Close_torn_down)
  then have "\<exists>c. ctx l' = Some c \<and> ctx_done c"
    by (auto simp: torn_down_def split: option.splits)
  with torn_down_Close [OF td, of f'] show ?thesis by blast
qed

theorem Close_twice_witness:
  "Close no_faults listening =
     (None, [StmtClose, DBClose, Cancel, Shutdown, Shutdown, ServerClose],
      listening\<lparr>get := Some \<lparr>stmt_closed = True, QueryRow_Scan = links_scan\<rparr>,
                db := Some \<lparr>db_closed = True, calls = []\<rparr>,
                ctx := Some \<lparr>ctx_done = True\<rparr>,
                Server := \<lparr>inShutdown = True, srv_closed = True\<rparr>\<rparr>)
   \<and> ctx listening \<noteq> None
   \<and> fst (Close stmt_close_fails
            (listening\<lparr>get := Some \<lparr>stmt_closed = True, QueryRow_Scan = links_scan\<rparr>,
                db := Some \<lparr>db_closed = True, calls = []\<rparr>,
                ctx := Some \<lparr>ctx_done = True\<rparr>,
                Server := \<lparr>inShutdown = True, srv_closed = True\<rparr>\<rparr>)) = None
   \<and> snd (snd (Close stmt_close_fails
            (listening\<lparr>get := Some \<lparr>stmt_closed = True, QueryRow_Scan = links_scan\<rparr>,
                db := Some \<lparr>db_closed = True, calls = []\<rparr>,
                ctx := Some \<lparr>ctx_done = True\<rparr>,
                Server := \<lparr>inShutdown = True, srv_closed = True\<rparr>\<rparr>)))
       = listening\<lparr>get := Some \<lparr>stmt_closed = True, QueryRow_Scan = links_scan\<rparr>,
                db := Some \<lparr>db_closed = True, calls = []\<rparr>,
                ctx := Some \<lparr>ctx_done = True\<rparr>,
                Server := \<lparr>inShutdown = True, srv_closed = True\<rparr>\<rparr>"
proof -
  have c: "ctx listening \<noteq> None"
    by (simp add: listening_def)
  from Close_twice [OF Close_listening c, of stmt_close_fails] Close_listening c
  show ?thesis by blast
qed

section \<open>Properties of adding and deleting\<close>

lemma invalid_do_cs: "\<not> isNameValid ''do_cs''"
  by (simp add: isNameValid_alnum alnum_def)

text \<open>
  C8 (as amended): for every name that \<^verbatim>\<open>isNameValid\<close> rejects, \<^verbatim>\<open>Add\<close> and \<^verbatim>\<open>Delete\<close>
  on a configured Linker (one with a database connection) return \<^verbatim>\<open>ErrInvalidName\<close>
  before any database statement is prepared or executed; on a Linker that is not
  configured they return \<^verbatim>\<open>ErrNotConfigured\<close>. In both cases the Linker and the log of
  its connection are left as they were.
\<close>

theorem invalid_name_rejected_first:
  assumes "\<not> isNameValid n"
  shows "(db l \<noteq> None \<longrightarrow>
            Add lib f l n u = (Some ErrInvalidName, l) \<and> Delete f l n = (Some ErrInvalidName, l))
     \<and> (db l = None \<longrightarrow>
            Add lib f l n u = (Some ErrNotConfigured, l) \<and> Delete f l n = (Some ErrNotConfigured, l))"
  using assms by (auto simp: Add_def Delete_def)

theorem invalid_name_rejected_first_witness:
  "\<not> isNameValid ''do_cs''
   \<and> Add path_only_lib no_faults listening ''do_cs'' ''example.com'' = (Some ErrInvalidName, listening)
   \<and> Delete no_faults listening ''do_cs'' = (Some ErrInvalidName, listening)
   \<and> db listening = Some \<lparr>db_closed = False, calls = []\<rparr>"
  using invalid_name_rejected_first [OF invalid_do_cs, of listening path_only_lib no_faults "''example.com''"]
    invalid_do_cs
  by (simp add: listening_def)

theorem invalid_name_unconfigured_counterexample:
  "\<not> isNameValid ''do_cs''
   \<and> Add path_only_lib no_faults unconfigured ''do_cs'' ''example.com''
       = (Some ErrNotConfigured, unconfigured)
   \<and> Delete no_faults unconfigured ''do_cs'' = (Some ErrNotConfigured, unconfigured)
   \<and> ErrNotConfigured \<noteq> ErrInvalidName"
  using invalid_do_cs by (simp add: Add_def Delete_def unconfigured_def)

lemma valid_docs: "isNameValid ''docs''"
  by (simp add: isNameValid_alnum alnum_def)

lemma path_only_parse:
  "url_Parse path_only_lib (TrimSpace path_only_lib ''  example.com/docs '')
     = Inr \<lparr>Scheme = [], Opaque = [], Host = [], Path = ''example.com/docs'',
            RawQuery = [], Fragment = []\<rparr>"
  by (simp add: path_only_lib_def)

text \<open>
  C9: for every valid name and every URL string \<open>u\<close>, \<^verbatim>\<open>Add\<close> on a configured Linker
  trims \<open>u\<close>, parses it, sets the scheme \<^verbatim>\<open>https\<close> when the parsed URL is not absolute,
  and passes the printed form of that URL, which is absolute, to the one \<^verbatim>\<open>INSERT\<close> it
  executes. When parsing fails, or preparing the statement fails, nothing is executed.
\<close>

theorem Add_stores_absolute_url:
  assumes d: "db l = Some d"
      and n: "isNameValid n"
  shows "(\<forall>err. url_Parse lib (TrimSpace lib u) = Inl err \<longrightarrow>
            Add lib f l n u =
              (Some (newError (''invalid URL '' @ [CHR 0x22] @ u @ [CHR 0x22]) (Some err)), l))
     \<and> (\<forall>p0. url_Parse lib (TrimSpace lib u) = Inr p0 \<longrightarrow>
            IsAbs (if IsAbs p0 then p0 else p0\<lparr>Scheme := ''https''\<rparr>)
            \<and> (prepare_err f = None \<longrightarrow>
                 db (snd (Add lib f l n u)) =
                   Some (d\<lparr>calls := calls d @
                      [PrepareCall sqlAdd,
                       ExecCall sqlAdd
                         [n, url_String lib (if IsAbs p0 then p0 else p0\<lparr>Scheme := ''https''\<rparr>)],
                       CloseCall sqlAdd]\<rparr>))
            \<and> (prepare_err f \<noteq> None \<longrightarrow>
                 db (snd (Add lib f l n u)) = Some (d\<lparr>calls := calls d @ [PrepareCall sqlAdd]\<rparr>))
            \<and> (fst (Add lib f l n u) = None \<longleftrightarrow>
                 prepare_err f = None \<and> exec_err f = None \<and> rows_affected_err f = None))"
proof -
  have a: "\<forall>err. url_Parse lib (TrimSpace lib u) = Inl err \<longrightarrow>
            Add lib f l n u =
              (Some (newError (''invalid URL '' @ [CHR 0x22] @ u @ [CHR 0x22]) (Some err)), l)"
    using d n by (simp add: Add_def del: append.simps)
  have b: "\<forall>p0. url_Parse lib (TrimSpace lib u) = Inr p0 \<longrightarrow>
            IsAbs (if IsAbs p0 then p0 else p0\<lparr>Scheme := ''https''\<rparr>)"
    by (simp add: IsAbs_def)
  have c: "\<forall>p0. url_Parse lib (TrimSpace lib u) = Inr p0 \<longrightarrow>
            (prepare_err f = None \<longrightarrow>
                 db (snd (Add lib f l n u)) =
                   Some (d\<lparr>calls := calls d @
                      [PrepareCall sqlAdd,
                       ExecCall sqlAdd
                         [n, url_String lib (if IsAbs p0 then p0 else p0\<lparr>Scheme := ''https''\<rparr>)],
                       CloseCall sqlAdd]\<rparr>))"
    using d n
    by (auto simp: Add_def exec_and_close_def Let_def split: option.splits)
  have e: "\<forall>p0. url_Parse lib (TrimSpace lib u) = Inr p0 \<longrightarrow>
            (prepare_err f \<noteq> None \<longrightarrow>
                 db (snd (Add lib f l n u)) = Some (d\<lparr>calls := calls d @ [PrepareCall sqlAdd]\<rparr>))"
    using d n
    by (auto simp: Add_def Let_def split: option.splits)
  have g: "\<forall>p0. url_Parse lib (TrimSpace lib u) = Inr p0 \<longrightarrow>
            (fst (Add lib f l n u) = None \<longleftrightarrow>
                 prepare_err f = None \<and> exec_err f = None \<and> rows_affected_err f = None)"
    using d n
    by (auto simp: Add_def exec_and_close_def Let_def split: option.splits)
  from a b c e g show ?thesis by blast
qed

theorem Add_stores_absolute_url_witness:
  "isNameValid ''docs''
   \<and> db listening = Some \<lparr>db_closed = False, calls = []\<rparr>
   \<and> fst (Add path_only_lib no_faults listening ''docs'' ''  example.com/docs '') = None
   \<and> db (snd (Add path_only_lib no_faults listening ''docs'' ''  example.com/docs '')) =
       Some \<lparr>db_closed = False,
             calls = [PrepareCall sqlAdd,
                      ExecCall sqlAdd [''docs'', ''https://example.com/docs''],
                      CloseCall sqlAdd]\<rparr>"
proof -
  have d: "db listening = Some \<lparr>db_closed = False, calls = []\<rparr>"
    by (simp add: listening_def)
  have f: "prepare_err no_faults = None" "exec_err no_faults = None"
    "rows_affected_err no_faults = None"
    by (simp_all add: no_faults_def)
  from Add_stores_absolute_url [OF d valid_docs, of path_only_lib "''  example.com/docs ''" no_faults]
    path_only_parse f
  have "fst (Add path_only_lib no_faults listening ''docs'' ''  example.com/docs '') = None"
    and "db (snd (Add path_only_lib no_faults listening ''docs'' ''  example.com/docs '')) =
       Some (\<lparr>db_closed = False, calls = []\<rparr>\<lparr>calls := calls \<lparr>db_closed = False, calls = []\<rparr> @
          [PrepareCall sqlAdd,
           ExecCall sqlAdd [''docs'', url_String path_only_lib
              (if IsAbs \<lparr>Scheme = [], Opaque = [], Host = [], Path = ''example.com/docs'',
                         RawQuery = [], Fragment = []\<rparr>
               then \<lparr>Scheme = [], Opaque = [], Host = [], Path = ''example.com/docs'',
                         RawQuery = [], Fragment = []\<rparr>
               else \<lparr>Scheme = [], Opaque = [], Host = [], Path = ''example.com/docs'',
                         RawQuery = [], Fragment = []\<rparr>\<lparr>Scheme := ''https''\<rparr>)],
           CloseCall sqlAdd]\<rparr>)"
    by blast+
  then show ?thesis
    using d valid_docs by (simp add: IsAbs_def path_only_lib_def)
qed

end
